theory Spec2Isabelle
  imports Main "HOL-Library.AList"
begin

section \<open>Constants of the rule translator\<close>

text \<open>
  The declarative-net-request blocker imports four constants from the module
  \<^verbatim>\<open>@/lib/consts\<close>: \<^verbatim>\<open>RULE_ID_BASE\<close>, \<^verbatim>\<open>MAX_RULES_PER_SITE\<close>,
  \<^verbatim>\<open>UNLOCK_PREFIX\<close> and \<^verbatim>\<open>ALARM_PREFIX\<close>. Their values are not part of the
  blocker module, so every function that reads one takes the record below as its first
  argument. Indices and rule identifiers are array positions and small integers of the
  source; they are modelled as natural numbers (the rounding of JavaScript numbers beyond
  \<open>2 ^ 53\<close> is outside the model).
\<close>

record dnr_consts =
  RULE_ID_BASE :: nat
  MAX_RULES_PER_SITE :: nat
  UNLOCK_PREFIX :: string
  ALARM_PREFIX :: string

text \<open>
  \<^verbatim>\<open>function getRuleId(siteIndex, patternIndex) {
    return RULE_ID_BASE + siteIndex * MAX_RULES_PER_SITE + patternIndex; }\<close>
\<close>

definition getRuleId :: "dnr_consts \<Rightarrow> nat \<Rightarrow> nat \<Rightarrow> nat" where
  "getRuleId c siteIndex patternIndex =
     RULE_ID_BASE c + siteIndex * MAX_RULES_PER_SITE c + patternIndex"

text \<open>A concrete choice of the four constants, used where a statement is evaluated.\<close>

definition example_consts :: dnr_consts where
  "example_consts =
     \<lparr>RULE_ID_BASE = 1000, MAX_RULES_PER_SITE = 100,
      UNLOCK_PREFIX = ''unlock_'', ALARM_PREFIX = ''relock_''\<rparr>"

section \<open>Pattern strings\<close>

text \<open>
  Pattern strings are lists of characters, and a character is a code unit below 256
  (ISO 8859-1); strings with a higher code unit are outside the type. On these
  characters \<open>toLowerCase\<close> is that of ECMAScript: it maps \<open>A\<close>..\<open>Z\<close> to
  \<open>a\<close>..\<open>z\<close> and the capital letters U+00C0..U+00DE (U+00D7, the multiplication
  sign, is not a letter) to U+00E0..U+00FE, and leaves every other character alone. The
  white space that \<open>trim\<close> removes is tab, line feed, vertical tab, form feed,
  carriage return, space and the no-break space U+00A0.
\<close>

abbreviation backslash :: char where
  "backslash \<equiv> CHR 0x5C"

definition toLowerCaseChar :: "char \<Rightarrow> char" where
  "toLowerCaseChar c =
     (case map_of
        (zip (''ABCDEFGHIJKLMNOPQRSTUVWXYZ'' @
              [CHR 0xC0, CHR 0xC1, CHR 0xC2, CHR 0xC3, CHR 0xC4, CHR 0xC5, CHR 0xC6, CHR 0xC7,
               CHR 0xC8, CHR 0xC9, CHR 0xCA, CHR 0xCB, CHR 0xCC, CHR 0xCD, CHR 0xCE, CHR 0xCF,
               CHR 0xD0, CHR 0xD1, CHR 0xD2, CHR 0xD3, CHR 0xD4, CHR 0xD5, CHR 0xD6, CHR 0xD8,
               CHR 0xD9, CHR 0xDA, CHR 0xDB, CHR 0xDC, CHR 0xDD, CHR 0xDE])
             (''abcdefghijklmnopqrstuvwxyz'' @
              [CHR 0xE0, CHR 0xE1, CHR 0xE2, CHR 0xE3, CHR 0xE4, CHR 0xE5, CHR 0xE6, CHR 0xE7,
               CHR 0xE8, CHR 0xE9, CHR 0xEA, CHR 0xEB, CHR 0xEC, CHR 0xED, CHR 0xEE, CHR 0xEF,
               CHR 0xF0, CHR 0xF1, CHR 0xF2, CHR 0xF3, CHR 0xF4, CHR 0xF5, CHR 0xF6, CHR 0xF8,
               CHR 0xF9, CHR 0xFA, CHR 0xFB, CHR 0xFC, CHR 0xFD, CHR 0xFE])) c of
        Some l \<Rightarrow> l
      | None \<Rightarrow> c)"

definition toLowerCase :: "string \<Rightarrow> string" where
  "toLowerCase s = map toLowerCaseChar s"

definition isWhiteSpace :: "char \<Rightarrow> bool" where
  "isWhiteSpace c =
     (c \<in> {CHR 0x09, CHR 0x0A, CHR 0x0B, CHR 0x0C, CHR 0x0D, CHR 0x20, CHR 0xA0})"

definition trimStart :: "string \<Rightarrow> string" where
  "trimStart s = dropWhile isWhiteSpace s"

definition trimEnd :: "string \<Rightarrow> string" where
  "trimEnd s = rev (dropWhile isWhiteSpace (rev s))"

definition trim :: "string \<Rightarrow> string" where
  "trim s = trimEnd (trimStart s)"

definition startsWith :: "string \<Rightarrow> string \<Rightarrow> bool" where
  "startsWith s p = (take (length p) s = p)"

text \<open>\<^verbatim>\<open>s.replace(/^https?:\/\//, "")\<close>: one leading scheme is removed.\<close>

definition stripScheme :: "string \<Rightarrow> string" where
  "stripScheme s =
     (if startsWith s ''https://'' then drop 8 s
      else if startsWith s ''http://'' then drop 7 s
      else s)"

text \<open>\<^verbatim>\<open>s.replace(/^www\./, "")\<close>: one leading \<open>www.\<close> is removed.\<close>

definition stripWww :: "string \<Rightarrow> string" where
  "stripWww s = (if startsWith s ''www.'' then drop 4 s else s)"

text \<open>
  \<^verbatim>\<open>function patternToDnrFilter(pattern) {
    let normalized = pattern.toLowerCase().trim()
      .replace(/^https?:\/\//, "").replace(/^www\./, "");
    if (normalized.startsWith("*.")) { const domain = normalized.slice(2); return `||${domain}`; }
    return `||${normalized}`; }\<close>
\<close>

definition patternToDnrFilter :: "string \<Rightarrow> string" where
  "patternToDnrFilter pattern =
     (let normalized = stripWww (stripScheme (trim (toLowerCase pattern)))
      in if startsWith normalized ''*.''
         then (let domain = drop 2 normalized in ''||'' @ domain)
         else ''||'' @ normalized)"

text \<open>
  \<^verbatim>\<open>function urlFilterToRegex(urlFilter) {
    let pattern = urlFilter.replace(/^\|\|/, "");
    pattern = pattern.replace(/[.+?^${}()|[\]\\]/g, "\\$&");
    pattern = pattern.replace(/\*/g, ".*");
    return `^(https?://(www\\.)?${pattern}.*)$`; }\<close>
\<close>

definition stripBars :: "string \<Rightarrow> string" where
  "stripBars s = (if startsWith s ''||'' then drop 2 s else s)"

definition isRegexSpecial :: "char \<Rightarrow> bool" where
  "isRegexSpecial c = (c \<in> set ''.+?^${}()|[]'' \<or> c = backslash)"

definition escapeSpecial :: "string \<Rightarrow> string" where
  "escapeSpecial s = concat (map (\<lambda>c. if isRegexSpecial c then [backslash, c] else [c]) s)"

definition expandStars :: "string \<Rightarrow> string" where
  "expandStars s = concat (map (\<lambda>c. if c = CHR ''*'' then ''.*'' else [c]) s)"

definition urlFilterToRegex :: "string \<Rightarrow> string" where
  "urlFilterToRegex urlFilter =
     (let pattern = stripBars urlFilter;
          pattern = escapeSpecial pattern;
          pattern = expandStars pattern
      in ''^(https?://(www'' @ [backslash] @ ''.)?'' @ pattern @ ''.*)$'')"

subsection \<open>Surface forms of a pattern\<close>

text \<open>
  Predicates used to state which surface forms of a pattern the translation identifies:
  the pattern has no white space in front, and its lower-case form does not open with a
  scheme, with \<open>www.\<close> or with \<open>*.\<close>.
\<close>

definition noLeadingSpace :: "string \<Rightarrow> bool" where
  "noLeadingSpace p = (case p of [] \<Rightarrow> True | c # _ \<Rightarrow> \<not> isWhiteSpace c)"




section \<open>Regular expressions of the rule condition\<close>

text \<open>
  The \<^verbatim>\<open>regexFilter\<close> of a rule is matched by the browser against the request URL.
  To say which URLs a produced filter matches, the fragment of the regular-expression
  syntax that \<open>urlFilterToRegex\<close> emits is given its standard meaning here: literal
  characters, special characters escaped by a backslash, \<open>.\<close> (any character but a line
  terminator), groups \<open>( )\<close>, the postfix operators \<open>*\<close> and \<open>?\<close>, and the
  anchors \<open>^\<close> and \<open>$\<close>. Any other syntax (\<open>|\<close>, \<open>+\<close>, brackets, braces, other
  escapes) is not read: \<open>parseRegex\<close> returns \<open>None\<close>. Characters are compared as
  they are (a case-insensitive match agrees with this one on lower-case URLs).
\<close>

datatype rx =
    NoMatch
  | Epsilon
  | Chr char
  | Dot
  | Every
  | Bol
  | Eol
  | Seq rx rx
  | Alt rx rx
  | Star rx

fun seqOf :: "rx list \<Rightarrow> rx" where
  "seqOf [] = Epsilon"
| "seqOf (r # rs) = Seq r (seqOf rs)"

text \<open>
  The parser keeps the items of the group being read (latest first) and a stack of the
  enclosing groups.
\<close>

fun parseRx :: "string \<Rightarrow> rx list \<Rightarrow> rx list list \<Rightarrow> rx option" where
  "parseRx [] cur [] = Some (seqOf (rev cur))"
| "parseRx [] cur (outer # stk) = None"
| "parseRx (c # cs) cur stk =
     (if c = backslash then
        (case cs of
           [] \<Rightarrow> None
         | d # ds \<Rightarrow>
             if isRegexSpecial d \<or> d = CHR ''*'' \<or> d = CHR ''/'' then parseRx ds (Chr d # cur) stk
             else None)
      else if c = CHR ''('' then parseRx cs [] (cur # stk)
      else if c = CHR '')'' then
        (case stk of
           [] \<Rightarrow> None
         | outer # stk' \<Rightarrow> parseRx cs (seqOf (rev cur) # outer) stk')
      else if c = CHR ''*'' then
        (case cur of [] \<Rightarrow> None | r # rs \<Rightarrow> parseRx cs (Star r # rs) stk)
      else if c = CHR ''?'' then
        (case cur of [] \<Rightarrow> None | r # rs \<Rightarrow> parseRx cs (Alt r Epsilon # rs) stk)
      else if c = CHR ''.'' then parseRx cs (Dot # cur) stk
      else if c = CHR ''^'' then parseRx cs (Bol # cur) stk
      else if c = CHR ''$'' then parseRx cs (Eol # cur) stk
      else if c \<in> set ''+|[]{}'' then None
      else parseRx cs (Chr c # cur) stk)"

definition parseRegex :: "string \<Rightarrow> rx option" where
  "parseRegex s = parseRx s [] []"

text \<open>
  Matching by derivatives. \<open>nullable atStart atEnd r\<close> says whether \<open>r\<close> matches the
  empty string at a position that is (or is not) the start and the end of the input;
  the anchors are the only items that look at the position.
\<close>

fun nullable :: "bool \<Rightarrow> bool \<Rightarrow> rx \<Rightarrow> bool" where
  "nullable s e NoMatch = False"
| "nullable s e Epsilon = True"
| "nullable s e (Chr c) = False"
| "nullable s e Dot = False"
| "nullable s e Every = False"
| "nullable s e Bol = s"
| "nullable s e Eol = e"
| "nullable s e (Seq a b) = (nullable s e a \<and> nullable s e b)"
| "nullable s e (Alt a b) = (nullable s e a \<or> nullable s e b)"
| "nullable s e (Star a) = True"

definition isLineTerminator :: "char \<Rightarrow> bool" where
  "isLineTerminator c = (c = CHR 0x0A \<or> c = CHR 0x0D)"

fun mkSeq :: "rx \<Rightarrow> rx \<Rightarrow> rx" where
  "mkSeq NoMatch b = NoMatch"
| "mkSeq Epsilon b = b"
| "mkSeq a b = Seq a b"

fun mkAlt :: "rx \<Rightarrow> rx \<Rightarrow> rx" where
  "mkAlt NoMatch b = b"
| "mkAlt a NoMatch = a"
| "mkAlt a b = Alt a b"

fun deriv :: "bool \<Rightarrow> char \<Rightarrow> rx \<Rightarrow> rx" where
  "deriv s c NoMatch = NoMatch"
| "deriv s c Epsilon = NoMatch"
| "deriv s c (Chr d) = (if c = d then Epsilon else NoMatch)"
| "deriv s c Dot = (if isLineTerminator c then NoMatch else Epsilon)"
| "deriv s c Every = Epsilon"
| "deriv s c Bol = NoMatch"
| "deriv s c Eol = NoMatch"
| "deriv s c (Seq a b) =
     mkAlt (mkSeq (deriv s c a) b) (if nullable s False a then deriv s c b else NoMatch)"
| "deriv s c (Alt a b) = mkAlt (deriv s c a) (deriv s c b)"
| "deriv s c (Star a) = mkSeq (deriv s c a) (Star a)"

fun matchesFrom :: "bool \<Rightarrow> rx \<Rightarrow> string \<Rightarrow> bool" where
  "matchesFrom s r [] = nullable s True r"
| "matchesFrom s r (c # cs) = matchesFrom False (deriv s c r) cs"

text \<open>
  A regex filter matches a URL when it matches some substring of it; the search is the
  full match of the regex between two runs of arbitrary characters.
\<close>

definition regexTest :: "string \<Rightarrow> string \<Rightarrow> bool option" where
  "regexTest regex url =
     (case parseRegex regex of
        None \<Rightarrow> None
      | Some r \<Rightarrow> Some (matchesFrom True (Seq (Star Every) (Seq r (Star Every))) url))"

section \<open>The blocker: data model and browser state\<close>

text \<open>
  \<open>BlockedSite\<close> and \<open>SiteRule\<close> are the records of the persisted configuration;
  \<open>UnlockState\<close> is the grant kept in session storage. Time stamps and durations are
  integers (milliseconds and minutes). The field \<open>id\<close> of a site and of a rule is
  written \<open>site_id\<close> and \<open>rule_id\<close>, and \<open>action.type\<close> of a rule \<open>action_type\<close>.
\<close>

record SiteRule =
  pattern :: string
  allow :: bool

record BlockedSite =
  site_id :: string
  enabled :: bool
  rules :: "SiteRule list"

record UnlockState =
  siteId :: string
  expiresAt :: int

text \<open>A rule of \<^verbatim>\<open>browser.declarativeNetRequest\<close>, with the fields the blocker sets.\<close>

record DnrRule =
  rule_id :: nat
  priority :: nat
  action_type :: string
  regexFilter :: string
  resourceTypes :: "string list"

text \<open>
  The part of the browser the blocker talks to: the configured sites
  (\<^verbatim>\<open>getBlockedSites()\<close>), the session storage area and the alarms (objects keyed
  by strings, kept as association lists in insertion order), the dynamic rules, and the
  clock read by \<^verbatim>\<open>Date.now()\<close>. The clock is a field of the state: an operation
  reads it where the source calls \<^verbatim>\<open>Date.now()\<close>, and time passes between operations
  by updating the field.
\<close>

record browser =
  blockedSites :: "BlockedSite list"
  session :: "(string \<times> UnlockState) list"
  alarms :: "(string \<times> int) list"
  dynamicRules :: "DnrRule list"
  now :: int

subsection \<open>Rule translation\<close>

text \<open>
  \<^verbatim>\<open>blockPatterns.forEach((rule, patternIndex) => { rules.push({...}) })\<close>: the loop
  of \<open>createSiteRules\<close>, with the index and the array being filled made explicit.
\<close>

fun pushSiteRules :: "dnr_consts \<Rightarrow> nat \<Rightarrow> SiteRule list \<Rightarrow> nat \<Rightarrow> DnrRule list \<Rightarrow> DnrRule list" where
  "pushSiteRules c siteIndex [] patternIndex acc = acc"
| "pushSiteRules c siteIndex (rule # rest) patternIndex acc =
     pushSiteRules c siteIndex rest (patternIndex + 1)
       (acc @ [\<lparr>rule_id = getRuleId c siteIndex patternIndex,
                priority = 1,
                action_type = ''block'',
                regexFilter = urlFilterToRegex (patternToDnrFilter (pattern rule)),
                resourceTypes = [''main_frame'']\<rparr>])"

definition createSiteRules :: "dnr_consts \<Rightarrow> BlockedSite \<Rightarrow> nat \<Rightarrow> DnrRule list" where
  "createSiteRules c site siteIndex =
     (if \<not> enabled site then []
      else (let blockPatterns = filter (\<lambda>r. \<not> allow r) (rules site)
            in pushSiteRules c siteIndex blockPatterns 0 []))"

subsection \<open>Unlocked sites\<close>

text \<open>
  \<^verbatim>\<open>for (const [key, value] of Object.entries(session)) {
    if (key.startsWith(UNLOCK_PREFIX)) {
      const state = value; if (state.expiresAt > now) unlockedIds.add(state.siteId); } }\<close>
\<close>

fun collectUnlocked :: "dnr_consts \<Rightarrow> int \<Rightarrow> (string \<times> UnlockState) list \<Rightarrow> string set \<Rightarrow> string set" where
  "collectUnlocked c t [] unlockedIds = unlockedIds"
| "collectUnlocked c t ((key, state) # entries) unlockedIds =
     collectUnlocked c t entries
       (if startsWith key (UNLOCK_PREFIX c)
        then (if expiresAt state > t then insert (siteId state) unlockedIds else unlockedIds)
        else unlockedIds)"

definition getUnlockedSiteIds :: "dnr_consts \<Rightarrow> browser \<Rightarrow> string set" where
  "getUnlockedSiteIds c b = collectUnlocked c (now b) (session b) {}"

subsection \<open>Synchronisation\<close>

text \<open>
  \<^verbatim>\<open>browser.declarativeNetRequest.updateDynamicRules({removeRuleIds, addRules})\<close>:
  the browser removes the rules with the given identifiers and then adds the new rules,
  as one operation. (The browser may also reject an update, for instance one with a
  repeated identifier; then the call fails as a whole. Rejection is not modelled.)
\<close>

definition updateDynamicRules :: "nat list \<Rightarrow> DnrRule list \<Rightarrow> DnrRule list \<Rightarrow> DnrRule list" where
  "updateDynamicRules removeRuleIds addRules current =
     filter (\<lambda>r. rule_id r \<notin> set removeRuleIds) current @ addRules"

text \<open>
  \<^verbatim>\<open>sites.forEach((site, index) => {
    if (!site.enabled) return;
    if (unlockedSiteIds.has(site.id)) return;
    const siteRules = createSiteRules(site, index);
    newRules.push(...siteRules); })\<close>
\<close>

fun collectNewRules :: "dnr_consts \<Rightarrow> string set \<Rightarrow> BlockedSite list \<Rightarrow> nat \<Rightarrow> DnrRule list \<Rightarrow> DnrRule list" where
  "collectNewRules c unlockedSiteIds [] index newRules = newRules"
| "collectNewRules c unlockedSiteIds (site # rest) index newRules =
     collectNewRules c unlockedSiteIds rest (index + 1)
       (if \<not> enabled site then newRules
        else if site_id site \<in> unlockedSiteIds then newRules
        else newRules @ createSiteRules c site index)"

text \<open>The argument of the one \<open>updateDynamicRules\<close> call that \<open>syncDnrRules\<close> makes.\<close>

definition syncRequest :: "dnr_consts \<Rightarrow> browser \<Rightarrow> nat list \<times> DnrRule list" where
  "syncRequest c b =
     (let sites = blockedSites b;
          existingRules = dynamicRules b;
          existingRuleIds = map rule_id existingRules;
          unlockedSiteIds = getUnlockedSiteIds c b;
          newRules = collectNewRules c unlockedSiteIds sites 0 []
      in (existingRuleIds, newRules))"

definition syncDnrRules :: "dnr_consts \<Rightarrow> browser \<Rightarrow> browser" where
  "syncDnrRules c b =
     (case syncRequest c b of
        (removeRuleIds, addRules) \<Rightarrow>
          b\<lparr>dynamicRules := updateDynamicRules removeRuleIds addRules (dynamicRules b)\<rparr>)"

subsection \<open>Grants\<close>

definition unlockKey :: "dnr_consts \<Rightarrow> string \<Rightarrow> string" where
  "unlockKey c sid = UNLOCK_PREFIX c @ sid"

definition alarmName :: "dnr_consts \<Rightarrow> string \<Rightarrow> string" where
  "alarmName c sid = ALARM_PREFIX c @ sid"

text \<open>
  \<^verbatim>\<open>grantAccess(siteId, durationMinutes)\<close>: store the grant under the site's key,
  synchronise, create the alarm (an alarm created under an existing name replaces it),
  return the expiry.
\<close>

definition grantAccess :: "dnr_consts \<Rightarrow> string \<Rightarrow> int option \<Rightarrow> browser \<Rightarrow> browser \<times> int" where
  "grantAccess c sid durationMinutes b =
     (let durationMs = (case durationMinutes of None \<Rightarrow> 60 | Some m \<Rightarrow> m) * 60 * 1000;
          expires = now b + durationMs;
          state = \<lparr>siteId = sid, expiresAt = expires\<rparr>;
          b1 = b\<lparr>session := AList.update (unlockKey c sid) state (session b)\<rparr>;
          b2 = syncDnrRules c b1;
          b3 = b2\<lparr>alarms := AList.update (alarmName c sid) expires (alarms b2)\<rparr>
      in (b3, expires))"

text \<open>
  \<^verbatim>\<open>isSiteUnlocked(siteId)\<close> and \<^verbatim>\<open>getUnlockState(siteId)\<close>: read the grant; a
  grant found with \<open>expiresAt <= Date.now()\<close> is removed from session storage.
\<close>

definition isSiteUnlocked :: "dnr_consts \<Rightarrow> string \<Rightarrow> browser \<Rightarrow> browser \<times> bool" where
  "isSiteUnlocked c sid b =
     (case map_of (session b) (unlockKey c sid) of
        None \<Rightarrow> (b, False)
      | Some state \<Rightarrow>
          if expiresAt state \<le> now b
          then (b\<lparr>session := AList.delete (unlockKey c sid) (session b)\<rparr>, False)
          else (b, True))"

definition getUnlockState :: "dnr_consts \<Rightarrow> string \<Rightarrow> browser \<Rightarrow> browser \<times> UnlockState option" where
  "getUnlockState c sid b =
     (case map_of (session b) (unlockKey c sid) of
        None \<Rightarrow> (b, None)
      | Some state \<Rightarrow>
          if expiresAt state \<le> now b
          then (b\<lparr>session := AList.delete (unlockKey c sid) (session b)\<rparr>, None)
          else (b, Some state))"

text \<open>The rule that \<open>pushSiteRules\<close> builds for one block pattern.\<close>

definition mkRule :: "dnr_consts \<Rightarrow> nat \<Rightarrow> nat \<Rightarrow> SiteRule \<Rightarrow> DnrRule" where
  "mkRule c i j r = \<lparr>rule_id = getRuleId c i j, priority = 1, action_type = ''block'',
      regexFilter = urlFilterToRegex (patternToDnrFilter (pattern r)),
      resourceTypes = [''main_frame'']\<rparr>"

subsection \<open>Example states\<close>

text \<open>A browser whose session storage holds one grant, for site \<open>s1\<close>, expired at
  time 100, with the clock at 200; and a browser with nothing stored at time 1000.\<close>

definition expired_browser :: browser where
  "expired_browser =
     \<lparr>blockedSites = [], session = [(''unlock_s1'', \<lparr>siteId = ''s1'', expiresAt = 100\<rparr>)],
      alarms = [(''relock_s1'', 100)], dynamicRules = [], now = 200\<rparr>"

definition fresh_browser :: browser where
  "fresh_browser =
     \<lparr>blockedSites =
        [\<lparr>site_id = ''s1'', enabled = True,
          rules = [\<lparr>pattern = ''*.example.com'', allow = False\<rparr>]\<rparr>],
      session = [], alarms = [], dynamicRules = [], now = 1000\<rparr>"

text \<open>The duration of a grant in milliseconds: \<^verbatim>\<open>(durationMinutes ?? 60) * 60 * 1000\<close>.\<close>

definition durationMsOf :: "int option \<Rightarrow> int" where
  "durationMsOf durationMinutes = (case durationMinutes of None \<Rightarrow> 60 | Some m \<Rightarrow> m) * 60 * 1000"

section \<open>Unlock guards\<close>

text \<open>
  The guard table of the extension package (\<^verbatim>\<open>UNLOCK_GUARDS.claude\<close>, with the
  reason \<open>waiting\<close>). The repository also holds an earlier copy of the table, in
  \<^verbatim>\<open>src/lib/unlock-guards.ts\<close>, whose \<open>check\<close> hands the status on without
  reading \<open>waitingForInput\<close>; it is not modelled.
\<close>

datatype guard_reason = invalid_url | server_error | offline | idle | waiting

record UnlockGuardState =
  active :: bool
  reason :: "guard_reason option"
  message :: "string option"

text \<open>
  What \<open>check\<close> reads of the answer of \<^verbatim>\<open>getAiAgentStatus\<close> and of
  \<^verbatim>\<open>parseAiAgentStateMessage\<close> (both of the module \<^verbatim>\<open>@/lib/ai-agent-client\<close>,
  which is not among the sources, so the two functions are parameters of the guard),
  and the settings object, which may be absent and whose fields are optional.
\<close>

record AiAgentStatus =
  status_active :: bool
  status_reason :: "guard_reason option"
  statusCode :: "nat option"
  waitingForInput :: int

record AiAgentSettings =
  serverUrl :: "string option"
  allowWhileWaitingForInput :: "bool option"

text \<open>\<^verbatim>\<open>config?.serverUrl ?? ""\<close> and the truth value of
  \<^verbatim>\<open>config?.allowWhileWaitingForInput\<close>.\<close>

definition serverUrlOf :: "AiAgentSettings option \<Rightarrow> string" where
  "serverUrlOf config =
     (case config of
        None \<Rightarrow> []
      | Some cfg \<Rightarrow> (case serverUrl cfg of None \<Rightarrow> [] | Some u \<Rightarrow> u))"

definition allowsWaiting :: "AiAgentSettings option \<Rightarrow> bool" where
  "allowsWaiting config =
     (case config of
        None \<Rightarrow> False
      | Some cfg \<Rightarrow> (case allowWhileWaitingForInput cfg of None \<Rightarrow> False | Some a \<Rightarrow> a))"

text \<open>Decimal digits of a status code, for the server-error message.\<close>

fun showNat :: "nat \<Rightarrow> string" where
  "showNat n =
     (if n < 10 then [''0123456789'' ! n]
      else showNat (n div 10) @ [''0123456789'' ! (n mod 10)])"

definition serverErrorMessage :: "nat option \<Rightarrow> string" where
  "serverErrorMessage code =
     ''Distracted server error''
       @ (case code of
            None \<Rightarrow> []
          | Some n \<Rightarrow> if n = 0 then [] else '' ('' @ showNat n @ '')'')
       @ ''.''"

text \<open>
  \<^verbatim>\<open>UNLOCK_GUARDS.claude.check\<close>. The status request is the first argument: it maps
  the server URL to the answer that the request resolves to.
\<close>

definition check :: "(string \<Rightarrow> AiAgentStatus) \<Rightarrow> AiAgentSettings option \<Rightarrow> UnlockGuardState" where
  "check getAiAgentStatus settings =
     (let config = settings;
          result = getAiAgentStatus (serverUrlOf config)
      in if \<not> status_active result \<and> waitingForInput result > 0 \<and> allowsWaiting config
         then \<lparr>active = True, reason = None, message = None\<rparr>
         else if waitingForInput result > 0 \<and> \<not> status_active result
         then \<lparr>active = False, reason = Some waiting,
               message = Some ''AI agent is waiting for your input.''\<rparr>
         else \<lparr>active = status_active result,
               reason = status_reason result,
               message =
                 (if status_reason result = Some invalid_url
                  then Some ''Distracted server URL is invalid.''
                  else if status_reason result = Some server_error
                  then Some (serverErrorMessage (statusCode result))
                  else if status_reason result = Some offline
                  then Some ''Distracted server is offline.''
                  else if status_active result then None
                  else Some ''AI agent is idle.'')\<rparr>)"

text \<open>\<^verbatim>\<open>UNLOCK_GUARDS.claude.parseWebSocketMessage\<close>, with the payload parser as its
  first argument.\<close>

definition parseWebSocketMessage ::
  "('p \<Rightarrow> AiAgentStatus option) \<Rightarrow> 'p \<Rightarrow> AiAgentSettings option \<Rightarrow> UnlockGuardState option" where
  "parseWebSocketMessage parseAiAgentStateMessage payload settings =
     (let config = settings
      in case parseAiAgentStateMessage payload of
           None \<Rightarrow> None
         | Some result \<Rightarrow>
             if \<not> status_active result \<and> waitingForInput result > 0 \<and> allowsWaiting config
             then Some \<lparr>active = True, reason = None, message = None\<rparr>
             else if waitingForInput result > 0 \<and> \<not> status_active result
             then Some \<lparr>active = False, reason = Some waiting,
                        message = Some ''AI agent is waiting for your input.''\<rparr>
             else Some \<lparr>active = status_active result,
                        reason = status_reason result,
                        message = (if status_active result then None
                                   else Some ''AI agent is idle.'')\<rparr>)"

section \<open>The guard watcher\<close>

text \<open>
  \<open>startGuardWatcher\<close> returns a handle over a closure. The closure's variables are
  the first eight fields below. The remaining fields are the part of the event loop the
  closure acts on: the timers that are set and not cleared (handle and delay), the
  sockets that are not closed (handle, and whether the socket is open), the next fresh
  handle, the states passed to \<open>onState\<close> in order, the number of \<open>guard.check\<close> calls
  started, the delays given to \<open>setTimeout\<close> in order, and the number of pings sent.
  Handles are positive numbers, so a variable that holds one is truthy exactly when it
  is not null. The consumer \<open>onState\<close> is taken not to throw.
\<close>

record watcher =
  stopped :: bool
  socket :: "nat option"
  pollTimer :: "nat option"
  heartbeatTimer :: "nat option"
  wsPingTimer :: "nat option"
  reconnectTimer :: "nat option"
  reconnectAttempts :: nat
  lastState :: "UnlockGuardState option"
  timers :: "(nat \<times> nat) list"
  sockets :: "(nat \<times> bool) list"
  nextHandle :: nat
  emitted :: "UnlockGuardState list"
  checksStarted :: nat
  timeoutsSet :: "nat list"
  pingsSent :: nat

definition emitState :: "UnlockGuardState \<Rightarrow> watcher \<Rightarrow> watcher" where
  "emitState st w =
     (if stopped w then w
      else w\<lparr>lastState := Some st, emitted := emitted w @ [st]\<rparr>)"

text \<open>\<^verbatim>\<open>if (timer) clearInterval(timer)\<close>, and \<^verbatim>\<open>socket.close()\<close>.\<close>

definition clearTimer :: "nat option \<Rightarrow> watcher \<Rightarrow> watcher" where
  "clearTimer t w =
     (case t of
        None \<Rightarrow> w
      | Some h \<Rightarrow> w\<lparr>timers := filter (\<lambda>e. fst e \<noteq> h) (timers w)\<rparr>)"

definition closeSocket :: "nat \<Rightarrow> watcher \<Rightarrow> watcher" where
  "closeSocket h w = w\<lparr>sockets := filter (\<lambda>e. fst e \<noteq> h) (sockets w)\<rparr>"

definition stop :: "watcher \<Rightarrow> watcher" where
  "stop w =
     (if stopped w then w
      else (let w = w\<lparr>stopped := True\<rparr>;
                w = clearTimer (pollTimer w) w;
                w = clearTimer (heartbeatTimer w) w;
                w = clearTimer (wsPingTimer w) w;
                w = clearTimer (reconnectTimer w) w
            in case socket w of
                 None \<Rightarrow> w
               | Some h \<Rightarrow> (closeSocket h w)\<lparr>socket := None\<rparr>))"

definition handleGuardState :: "UnlockGuardState \<Rightarrow> watcher \<Rightarrow> watcher" where
  "handleGuardState st w =
     (let w = emitState st w
      in if \<not> active st then stop w else w)"

text \<open>
  \<open>runCheck\<close> starts \<open>guard.check\<close>; the check is asynchronous, so its outcome reaches
  the watcher later, as an event: the state it resolved to, or a rejection, which the
  \<^verbatim>\<open>catch\<close> turns into the offline state.
\<close>

definition runCheck :: "watcher \<Rightarrow> watcher" where
  "runCheck w = w\<lparr>checksStarted := checksStarted w + 1\<rparr>"

definition offlineState :: UnlockGuardState where
  "offlineState = \<lparr>active = False, reason = Some offline, message = None\<rparr>"

text \<open>\<^verbatim>\<open>setInterval\<close> and \<^verbatim>\<open>setTimeout\<close>: a fresh handle, and the timer is set.\<close>

definition newTimer :: "nat \<Rightarrow> watcher \<Rightarrow> nat \<times> watcher" where
  "newTimer delay w =
     (nextHandle w,
      w\<lparr>timers := timers w @ [(nextHandle w, delay)], nextHandle := nextHandle w + 1\<rparr>)"

definition startPolling :: "nat \<Rightarrow> watcher \<Rightarrow> watcher" where
  "startPolling interval w =
     (let w = runCheck w
      in case newTimer interval w of (h, w) \<Rightarrow> w\<lparr>pollTimer := Some h\<rparr>)"

definition startHeartbeat :: "nat \<Rightarrow> watcher \<Rightarrow> watcher" where
  "startHeartbeat heartbeatMs w =
     (case newTimer heartbeatMs w of (h, w) \<Rightarrow> w\<lparr>heartbeatTimer := Some h\<rparr>)"

definition heartbeatTick :: "watcher \<Rightarrow> watcher" where
  "heartbeatTick w =
     (case lastState w of
        None \<Rightarrow> w
      | Some st \<Rightarrow> if active st then emitState st w else w)"

text \<open>
  \<^verbatim>\<open>const scheduleReconnect = () => {
    if (stopped) return;
    if (reconnectTimer) return;
    reconnectAttempts += 1;
    const backoffMs = Math.min(10_000, 500 * 2 ** Math.min(6, reconnectAttempts)); // 0.5s .. 10s
    reconnectTimer = setTimeout(() => { reconnectTimer = null; connect(); }, backoffMs); }\<close>
\<close>

definition scheduleReconnect :: "watcher \<Rightarrow> watcher" where
  "scheduleReconnect w =
     (if stopped w then w
      else if reconnectTimer w \<noteq> None then w
      else (let w = w\<lparr>reconnectAttempts := reconnectAttempts w + 1\<rparr>;
                backoffMs = min 10000 (500 * 2 ^ (min 6 (reconnectAttempts w)))
            in case newTimer backoffMs w of
                 (h, w) \<Rightarrow> w\<lparr>reconnectTimer := Some h,
                               timeoutsSet := timeoutsSet w @ [backoffMs]\<rparr>))"

definition connect :: "watcher \<Rightarrow> watcher" where
  "connect w =
     (if stopped w then w
      else (let w = (case socket w of None \<Rightarrow> w | Some old \<Rightarrow> closeSocket old w);
                h = nextHandle w
            in w\<lparr>sockets := sockets w @ [(h, False)], nextHandle := h + 1, socket := Some h\<rparr>))"

text \<open>The callback of the reconnect timeout; the timeout that fired is no longer set.\<close>

definition reconnectFired :: "watcher \<Rightarrow> watcher" where
  "reconnectFired w =
     (let w = clearTimer (reconnectTimer w) w;
          w = w\<lparr>reconnectTimer := None\<rparr>
      in connect w)"

definition onOpen :: "watcher \<Rightarrow> watcher" where
  "onOpen w = runCheck (w\<lparr>reconnectAttempts := 0\<rparr>)"

text \<open>
  The message listener. Its argument is the outcome of parsing the payload: \<open>None\<close>
  when \<^verbatim>\<open>JSON.parse\<close> throws, when the guard has no parser or when the parser
  returns null.
\<close>

definition onMessage :: "UnlockGuardState option \<Rightarrow> watcher \<Rightarrow> watcher" where
  "onMessage parsed w =
     (case parsed of None \<Rightarrow> w | Some st \<Rightarrow> handleGuardState st w)"

definition pingTick :: "watcher \<Rightarrow> watcher" where
  "pingTick w =
     (if stopped w then w
      else case socket w of
             None \<Rightarrow> w
           | Some h \<Rightarrow>
               if (h, True) \<in> set (sockets w) then w\<lparr>pingsSent := pingsSent w + 1\<rparr> else w)"

text \<open>
  The events of a session. Timer callbacks and socket listeners may run in any state:
  a callback that was already queued runs even after its timer is cleared.
\<close>

datatype event =
    PollTick
  | HeartbeatTick
  | PingTick
  | ReconnectFired
  | CheckResolved UnlockGuardState
  | CheckRejected
  | SocketOpen nat
  | SocketMessage nat "UnlockGuardState option"
  | SocketClose nat
  | SocketError nat
  | StopCalled

fun step :: "event \<Rightarrow> watcher \<Rightarrow> watcher" where
  "step PollTick w = runCheck w"
| "step HeartbeatTick w = heartbeatTick w"
| "step PingTick w = pingTick w"
| "step ReconnectFired w = reconnectFired w"
| "step (CheckResolved st) w = handleGuardState st w"
| "step CheckRejected w = handleGuardState offlineState w"
| "step (SocketOpen h) w =
     onOpen (w\<lparr>sockets := map (\<lambda>e. if fst e = h then (h, True) else e) (sockets w)\<rparr>)"
| "step (SocketMessage h parsed) w = onMessage parsed w"
| "step (SocketClose h) w = scheduleReconnect (closeSocket h w)"
| "step (SocketError h) w = scheduleReconnect w"
| "step StopCalled w = stop w"

fun run :: "event list \<Rightarrow> watcher \<Rightarrow> watcher" where
  "run [] w = w"
| "run (e # es) w = run es (step e w)"

text \<open>The state a guard result is delivered with, for the events that deliver one.\<close>

fun delivered :: "event \<Rightarrow> UnlockGuardState option" where
  "delivered (CheckResolved st) = Some st"
| "delivered CheckRejected = Some offlineState"
| "delivered (SocketMessage h parsed) = parsed"
| "delivered e = None"

text \<open>
  \<open>startGuardWatcher\<close>. The guard of the method (if any) is given by what the watcher
  reads of it: its poll interval and the WebSocket URL it derives from the settings.
\<close>

record guard_info =
  guardPollIntervalMs :: "nat option"
  webSocketUrl :: "string option"

definition initialWatcher :: watcher where
  "initialWatcher =
     \<lparr>stopped = False, socket = None, pollTimer = None, heartbeatTimer = None,
      wsPingTimer = None, reconnectTimer = None, reconnectAttempts = 0, lastState = None,
      timers = [], sockets = [], nextHandle = 1, emitted = [], checksStarted = 0,
      timeoutsSet = [], pingsSent = 0\<rparr>"

definition startGuardWatcher :: "guard_info option \<Rightarrow> nat option \<Rightarrow> nat option \<Rightarrow> watcher option" where
  "startGuardWatcher guard heartbeatMsOpt pollIntervalMs =
     (case guard of
        None \<Rightarrow> None
      | Some g \<Rightarrow>
          Some (let heartbeatMs = (case heartbeatMsOpt of None \<Rightarrow> 5000 | Some h \<Rightarrow> h);
                    interval = (case pollIntervalMs of
                                  Some p \<Rightarrow> p
                                | None \<Rightarrow> (case guardPollIntervalMs g of
                                             Some p \<Rightarrow> p
                                           | None \<Rightarrow> 5000));
                    w = initialWatcher
                in if webSocketUrl g \<noteq> None \<and> webSocketUrl g \<noteq> Some []
                   then (let w = startPolling interval w;
                             w = connect w
                         in case newTimer 10000 w of
                              (h, w) \<Rightarrow> startHeartbeat heartbeatMs (w\<lparr>wsPingTimer := Some h\<rparr>))
                   else startPolling interval w))"

text \<open>The source's own guard: a poll interval of 5000 ms and a WebSocket URL.\<close>

definition claude_guard :: guard_info where
  "claude_guard =
     \<lparr>guardPollIntervalMs = Some 5000, webSocketUrl = Some ''ws://localhost:8765/ws''\<rparr>"

subsection \<open>Bookkeeping invariant and example values\<close>

text \<open>
  Every timer that is set is held in one of the four timer variables, and every socket
  that is not closed is the one held in \<open>socket\<close>.
\<close>

definition tracked :: "watcher \<Rightarrow> bool" where
  "tracked w =
     (list_all (\<lambda>e. Some (fst e) = pollTimer w \<or> Some (fst e) = heartbeatTimer w
                    \<or> Some (fst e) = wsPingTimer w \<or> Some (fst e) = reconnectTimer w) (timers w)
      \<and> list_all (\<lambda>e. Some (fst e) = socket w) (sockets w))"

text \<open>
  The session that \<open>startGuardWatcher\<close> creates for \<open>claude_guard\<close> with default
  options, a guard state reporting an idle agent, and a status answer with no active
  work and two agents waiting for input.
\<close>

definition ws_session :: watcher where
  "ws_session =
     \<lparr>stopped = False, socket = Some 2, pollTimer = Some 1, heartbeatTimer = Some 4,
      wsPingTimer = Some 3, reconnectTimer = None, reconnectAttempts = 0, lastState = None,
      timers = [(1, 5000), (3, 10000), (4, 5000)], sockets = [(2, False)], nextHandle = 5,
      emitted = [], checksStarted = 1, timeoutsSet = [], pingsSent = 0\<rparr>"

definition idleState :: UnlockGuardState where
  "idleState = \<lparr>active = False, reason = Some idle, message = Some ''AI agent is idle.''\<rparr>"

definition waitingStatus :: AiAgentStatus where
  "waitingStatus = \<lparr>status_active = False, status_reason = None, statusCode = None, waitingForInput = 2\<rparr>"

section \<open>Rule identifiers\<close>

lemma ruleId_decompose:
  fixes m :: nat
  assumes "p < m" "q < m" "i * m + p = j * m + q"
  shows "i = j \<and> p = q"
proof -
  from assms(1) have m: "0 < m" by simp
  from assms(3) have "(i * m + p) div m = (j * m + q) div m" by simp
  with assms(1,2) m have "i = j" by simp
  with assms(3) show ?thesis by simp
qed

text \<open>
  Claim C8. The identifier \<open>RULE_ID_BASE + siteIndex * MAX_RULES_PER_SITE + patternIndex\<close>
  is injective on the pairs \<open>(siteIndex, patternIndex)\<close> whose pattern index is below
  \<open>MAX_RULES_PER_SITE\<close>, whatever the number of sites: two such pairs with the same
  identifier are the same pair.
\<close>

theorem getRuleId_injective:
  assumes "p1 < MAX_RULES_PER_SITE c" and "p2 < MAX_RULES_PER_SITE c"
    and "getRuleId c s1 p1 = getRuleId c s2 p2"
  shows "s1 = s2 \<and> p1 = p2"
proof -
  from assms(3) have "s1 * MAX_RULES_PER_SITE c + p1 = s2 * MAX_RULES_PER_SITE c + p2"
    by (simp add: getRuleId_def)
  with assms(1,2) show ?thesis by (rule ruleId_decompose)
qed

theorem getRuleId_injective_witness:
  "(7::nat) < MAX_RULES_PER_SITE example_consts
   \<and> getRuleId example_consts 3 7 = getRuleId example_consts 3 7
   \<and> getRuleId example_consts 3 7 = 1307
   \<and> getRuleId example_consts 4 7 \<noteq> getRuleId example_consts 3 7"
proof -
  have b: "(7::nat) < MAX_RULES_PER_SITE example_consts"
    by (simp add: example_consts_def)
  have "getRuleId example_consts 4 7 \<noteq> getRuleId example_consts 3 7"
    using getRuleId_injective [OF b b, of 4 3] by auto
  moreover have "(3::nat) = 3 \<and> (7::nat) = 7"
    using getRuleId_injective [OF b b, of 3 3] by simp
  ultimately show ?thesis
    using b by (simp add: getRuleId_def example_consts_def)
qed

section \<open>Pattern normalisation\<close>


lemma isWhiteSpace_lower: "isWhiteSpace (toLowerCaseChar c) = isWhiteSpace c"
  by (auto simp: toLowerCaseChar_def isWhiteSpace_def split: option.splits if_splits)

lemma dropWhile_ws_lower:
  "dropWhile isWhiteSpace (map toLowerCaseChar s) = map toLowerCaseChar (dropWhile isWhiteSpace s)"
  by (induction s) (simp_all add: isWhiteSpace_lower)
























text \<open>
  Two evaluations beyond ASCII: a no-break space in front of a pattern is trimmed, and a
  capital letter of the upper half of the character set is lowered.
\<close>

lemma patternToDnrFilter_latin1_examples:
  "patternToDnrFilter ([CHR 0xA0] @ ''example.com'') = ''||example.com''
   \<and> patternToDnrFilter ([CHR 0xC9] @ ''xample.com'') = ''||'' @ [CHR 0xE9] @ ''xample.com''
   \<and> \<not> noLeadingSpace ([CHR 0xA0] @ ''example.com'')"
  by (simp add: patternToDnrFilter_def stripWww_def stripScheme_def trim_def trimEnd_def
      trimStart_def toLowerCase_def toLowerCaseChar_def isWhiteSpace_def startsWith_def
      noLeadingSpace_def)




section \<open>What the regex of a wildcard pattern matches\<close>

text \<open>
  Claim C4 says that the regex produced for \<open>*.<domain>\<close> matches the URLs of the
  domain and of all its subdomains. The translation drops the \<open>*.\<close>, so the regex is
  the one of the bare domain: it matches the domain and its \<open>www.\<close> variant, and no
  other subdomain. Evaluated for \<open>*.example.com\<close>:
\<close>

theorem wildcard_pattern_regex_misses_subdomains:
  "urlFilterToRegex (patternToDnrFilter ''*.example.com'')
      = ''^(https?://(www'' @ [backslash] @ ''.)?example'' @ [backslash] @ ''.com.*)$''
   \<and> urlFilterToRegex (patternToDnrFilter ''*.example.com'')
      = urlFilterToRegex (patternToDnrFilter ''example.com'')
   \<and> regexTest (urlFilterToRegex (patternToDnrFilter ''*.example.com''))
        ''https://example.com/'' = Some True
   \<and> regexTest (urlFilterToRegex (patternToDnrFilter ''*.example.com''))
        ''https://www.example.com/'' = Some True
   \<and> regexTest (urlFilterToRegex (patternToDnrFilter ''*.example.com''))
        ''https://foo.example.com/'' = Some False"
  by code_simp

section \<open>Synchronisation of the rule set\<close>

lemma pushSiteRules_eq:
  "pushSiteRules c i rs k acc = acc @ map (\<lambda>(j, r). mkRule c i j r) (enumerate k rs)"
  by (induction rs arbitrary: k acc) (simp_all add: mkRule_def)

lemma createSiteRules_eq:
  "createSiteRules c s i =
     (if enabled s
      then map (\<lambda>(j, r). mkRule c i j r) (enumerate 0 (filter (\<lambda>r. \<not> allow r) (rules s)))
      else [])"
  by (simp add: createSiteRules_def pushSiteRules_eq)

lemma collectNewRules_eq:
  "collectNewRules c U sites k acc =
     acc @ concat (map (\<lambda>(i, s). createSiteRules c s i)
                    (filter (\<lambda>(i, s). enabled s \<and> site_id s \<notin> U) (enumerate k sites)))"
  by (induction sites arbitrary: k acc) simp_all

lemma grants_Cons:
  "{siteId st | k st. (k, st) \<in> set ((key, state) # es) \<and> startsWith k p \<and> t < expiresAt st} =
   (if startsWith key p \<and> t < expiresAt state then {siteId state} else {})
      \<union> {siteId st | k st. (k, st) \<in> set es \<and> startsWith k p \<and> t < expiresAt st}"
  apply (rule set_eqI)
  apply (simp split: if_splits)
  apply blast
  done

lemma collectUnlocked_eq:
  "collectUnlocked c t es acc =
     acc \<union> {siteId st | k st. (k, st) \<in> set es \<and> startsWith k (UNLOCK_PREFIX c) \<and> t < expiresAt st}"
proof (induction es arbitrary: acc)
  case Nil
  show ?case by simp
next
  case (Cons e es)
  obtain key state where e: "e = (key, state)" by (cases e)
  show ?case
    unfolding e grants_Cons by (simp add: Cons.IH)
qed

lemma remove_all_existing: "filter (\<lambda>r. rule_id r \<notin> set (map rule_id rs)) rs = []"
  by (induction rs) auto

text \<open>
  Claim C1. \<open>syncDnrRules\<close> issues one update. Its \<open>removeRuleIds\<close> are the
  identifiers of all existing dynamic rules. Its \<open>addRules\<close> are computed from the
  site list and the set of currently unlocked ids (the ids of the grants stored under an
  unlock key whose expiry lies after the clock): for each site that is enabled and not
  unlocked, in order and under its index in the site list, one block rule per pattern
  that is not an allow pattern. Sites that are disabled or unlocked contribute no rule.
  After the update the dynamic rules are exactly the new rules.
\<close>

theorem syncDnrRules_replaces:
  "fst (syncRequest c b) = map rule_id (dynamicRules b)
   \<and> snd (syncRequest c b) =
       concat (map (\<lambda>(i, s). map (\<lambda>(j, r). mkRule c i j r)
                               (enumerate 0 (filter (\<lambda>r. \<not> allow r) (rules s))))
                (filter (\<lambda>(i, s). enabled s \<and> site_id s \<notin> getUnlockedSiteIds c b)
                   (enumerate 0 (blockedSites b))))
   \<and> getUnlockedSiteIds c b =
       {siteId st | k st. (k, st) \<in> set (session b) \<and> startsWith k (UNLOCK_PREFIX c)
                           \<and> now b < expiresAt st}
   \<and> dynamicRules (syncDnrRules c b) = snd (syncRequest c b)"
proof -
  have req: "syncRequest c b =
      (map rule_id (dynamicRules b),
       collectNewRules c (getUnlockedSiteIds c b) (blockedSites b) 0 [])"
    by (simp add: syncRequest_def)
  have rules_of: "map (\<lambda>(i, s). createSiteRules c s i) (filter (\<lambda>(i, s). enabled s \<and> P s) xs) =
      map (\<lambda>(i, s). map (\<lambda>(j, r). mkRule c i j r)
                        (enumerate 0 (filter (\<lambda>r. \<not> allow r) (rules s))))
          (filter (\<lambda>(i, s). enabled s \<and> P s) xs)" for P xs
    by (rule map_cong) (auto simp: createSiteRules_eq)
  have "dynamicRules (syncDnrRules c b) = snd (syncRequest c b)"
    unfolding syncDnrRules_def req
    by (simp add: updateDynamicRules_def remove_all_existing del: set_map)
  moreover have "getUnlockedSiteIds c b =
       {siteId st | k st. (k, st) \<in> set (session b) \<and> startsWith k (UNLOCK_PREFIX c)
                           \<and> now b < expiresAt st}"
    by (simp add: getUnlockedSiteIds_def collectUnlocked_eq)
  ultimately show ?thesis
    unfolding req by (simp add: collectNewRules_eq rules_of)
qed

section \<open>Grants and their expiry\<close>

text \<open>
  Claim C6. \<open>isSiteUnlocked\<close> returns true exactly when session storage holds a grant
  for the site whose \<open>expiresAt\<close> is strictly greater than the clock. When the stored
  grant has expired the call returns false and removes it, so that the site's key is
  absent afterwards and \<open>getUnlockState\<close> returns none at any later time.
\<close>

theorem isSiteUnlocked_iff_live_grant:
  "snd (isSiteUnlocked c sid b) =
      (\<exists>g. map_of (session b) (unlockKey c sid) = Some g \<and> now b < expiresAt g)
   \<and> (\<forall>g. map_of (session b) (unlockKey c sid) = Some g \<and> expiresAt g \<le> now b \<longrightarrow>
         snd (isSiteUnlocked c sid b) = False
         \<and> map_of (session (fst (isSiteUnlocked c sid b))) (unlockKey c sid) = None
         \<and> (\<forall>t. snd (getUnlockState c sid ((fst (isSiteUnlocked c sid b))\<lparr>now := t\<rparr>)) = None))"
  by (auto simp: isSiteUnlocked_def getUnlockState_def delete_conv' split: option.splits)

theorem isSiteUnlocked_iff_live_grant_witness:
  "map_of (session expired_browser) (unlockKey example_consts ''s1'')
      = Some \<lparr>siteId = ''s1'', expiresAt = 100\<rparr>
   \<and> expiresAt \<lparr>siteId = ''s1'', expiresAt = 100\<rparr> \<le> now expired_browser
   \<and> snd (isSiteUnlocked example_consts ''s1'' expired_browser) = False
   \<and> map_of (session (fst (isSiteUnlocked example_consts ''s1'' expired_browser)))
        (unlockKey example_consts ''s1'') = None
   \<and> snd (getUnlockState example_consts ''s1''
        ((fst (isSiteUnlocked example_consts ''s1'' expired_browser))\<lparr>now := 50\<rparr>)) = None"
proof -
  have g: "map_of (session expired_browser) (unlockKey example_consts ''s1'')
      = Some \<lparr>siteId = ''s1'', expiresAt = 100\<rparr>"
    by (simp add: expired_browser_def unlockKey_def example_consts_def)
  have e: "expiresAt \<lparr>siteId = ''s1'', expiresAt = 100\<rparr> \<le> now expired_browser"
    by (simp add: expired_browser_def)
  from isSiteUnlocked_iff_live_grant [of example_consts "''s1''" expired_browser] g e
  show ?thesis by blast
qed

lemma sync_keeps_session: "session (syncDnrRules c b) = session b"
  by (simp add: syncDnrRules_def split: prod.splits)

lemma sync_keeps_alarms: "alarms (syncDnrRules c b) = alarms b"
  by (simp add: syncDnrRules_def split: prod.splits)

lemma sync_keeps_now: "now (syncDnrRules c b) = now b"
  by (simp add: syncDnrRules_def split: prod.splits)

lemma grantAccess_session:
  "session (fst (grantAccess c sid d b)) =
     AList.update (unlockKey c sid) \<lparr>siteId = sid, expiresAt = now b + durationMsOf d\<rparr> (session b)"
  by (simp add: grantAccess_def Let_def sync_keeps_session durationMsOf_def)

lemma grantAccess_alarms:
  "alarms (fst (grantAccess c sid d b)) =
     AList.update (alarmName c sid) (now b + durationMsOf d) (alarms b)"
  by (simp add: grantAccess_def Let_def sync_keeps_alarms durationMsOf_def)

lemma grantAccess_result: "snd (grantAccess c sid d b) = now b + durationMsOf d"
  by (simp add: grantAccess_def Let_def durationMsOf_def)

lemma one_entry:
  "distinct (map fst al) \<Longrightarrow> map_of al k = Some v \<Longrightarrow> length (filter (\<lambda>e. fst e = k) al) = 1"
proof (induction al)
  case Nil
  then show ?case by simp
next
  case (Cons e al)
  show ?case
  proof (cases "fst e = k")
    case True
    with Cons.prems(1) have "k \<notin> fst ` set al" by auto
    then have "filter (\<lambda>e. fst e = k) al = []" by (auto simp: filter_empty_conv)
    with True show ?thesis by simp
  next
    case False
    with Cons.prems have "map_of al k = Some v" by (cases e) auto
    with Cons.IH Cons.prems(1) False show ?thesis by simp
  qed
qed

text \<open>
  Claim C9. A second \<open>grantAccess\<close> for a site that already holds a grant, made when
  the clock reads \<open>t2\<close>, returns the new expiry; afterwards session storage holds
  exactly one entry under the site's key, the grant with the new expiry, and the alarms
  hold exactly one entry under the site's alarm name, set to the new expiry. Reading the
  grant at any later time gives the new expiry or, once it has passed, nothing: the
  older expiry is never observed.
\<close>

theorem grantAccess_overwrites:
  fixes c :: dnr_consts and b :: browser and sid :: string and d1 d2 :: "int option" and t2 :: int
  defines "b1 \<equiv> fst (grantAccess c sid d1 b)"
  defines "b2 \<equiv> fst (grantAccess c sid d2 (b1\<lparr>now := t2\<rparr>))"
  defines "newest \<equiv> t2 + durationMsOf d2"
  assumes keys: "distinct (map fst (session b))" and names: "distinct (map fst (alarms b))"
  shows "snd (grantAccess c sid d2 (b1\<lparr>now := t2\<rparr>)) = newest
    \<and> map_of (session b2) (unlockKey c sid) = Some \<lparr>siteId = sid, expiresAt = newest\<rparr>
    \<and> length (filter (\<lambda>e. fst e = unlockKey c sid) (session b2)) = 1
    \<and> map_of (alarms b2) (alarmName c sid) = Some newest
    \<and> length (filter (\<lambda>e. fst e = alarmName c sid) (alarms b2)) = 1
    \<and> (\<forall>t3. snd (getUnlockState c sid (b2\<lparr>now := t3\<rparr>)) =
          (if newest \<le> t3 then None else Some \<lparr>siteId = sid, expiresAt = newest\<rparr>))"
proof -
  have s2: "map_of (session b2) (unlockKey c sid) = Some \<lparr>siteId = sid, expiresAt = newest\<rparr>"
    by (simp add: b2_def newest_def grantAccess_session update_conv')
  have a2: "map_of (alarms b2) (alarmName c sid) = Some newest"
    by (simp add: b2_def newest_def grantAccess_alarms update_conv')
  have ds: "distinct (map fst (session b2))"
    using keys by (simp add: b2_def b1_def grantAccess_session distinct_update)
  have da: "distinct (map fst (alarms b2))"
    using names by (simp add: b2_def b1_def grantAccess_alarms distinct_update)
  have g: "snd (getUnlockState c sid (b2\<lparr>now := t3\<rparr>)) =
          (if newest \<le> t3 then None else Some \<lparr>siteId = sid, expiresAt = newest\<rparr>)" for t3
    using s2 by (simp add: getUnlockState_def)
  show ?thesis
    using s2 a2 g one_entry [OF ds s2] one_entry [OF da a2]
    by (simp add: grantAccess_result newest_def)
qed

theorem grantAccess_overwrites_witness:
  "distinct (map fst (session fresh_browser)) \<and> distinct (map fst (alarms fresh_browser))
   \<and> snd (grantAccess example_consts ''s1'' (Some 30) fresh_browser) = 1801000
   \<and> snd (grantAccess example_consts ''s1'' None
        ((fst (grantAccess example_consts ''s1'' (Some 30) fresh_browser))\<lparr>now := 2000\<rparr>)) = 3602000
   \<and> map_of (session (fst (grantAccess example_consts ''s1'' None
        ((fst (grantAccess example_consts ''s1'' (Some 30) fresh_browser))\<lparr>now := 2000\<rparr>))))
        (unlockKey example_consts ''s1'') = Some \<lparr>siteId = ''s1'', expiresAt = 3602000\<rparr>
   \<and> length (filter (\<lambda>e. fst e = unlockKey example_consts ''s1'')
        (session (fst (grantAccess example_consts ''s1'' None
        ((fst (grantAccess example_consts ''s1'' (Some 30) fresh_browser))\<lparr>now := 2000\<rparr>))))) = 1
   \<and> map_of (alarms (fst (grantAccess example_consts ''s1'' None
        ((fst (grantAccess example_consts ''s1'' (Some 30) fresh_browser))\<lparr>now := 2000\<rparr>))))
        (alarmName example_consts ''s1'') = Some 3602000"
proof -
  have k: "distinct (map fst (session fresh_browser))" "distinct (map fst (alarms fresh_browser))"
    by (simp_all add: fresh_browser_def)
  have f: "snd (grantAccess example_consts ''s1'' (Some 30) fresh_browser) = 1801000"
    by (simp add: grantAccess_result durationMsOf_def fresh_browser_def)
  from grantAccess_overwrites [where b = fresh_browser and c = example_consts and sid = "''s1''"
      and ?d1.0 = "Some 30" and ?d2.0 = None and ?t2.0 = 2000, OF k] k f
  show ?thesis by (simp add: durationMsOf_def)
qed

section \<open>The guard check\<close>

text \<open>
  Claim C5. When the status answer reports no active agent work and a positive
  waiting-for-input count, \<open>check\<close> returns the inactive state with reason
  \<open>waiting\<close> unless the settings opt in to \<open>allowWhileWaitingForInput\<close>, in which
  case it returns the active state; a stream message with the same content is turned
  into the same state.
\<close>

theorem check_waiting_for_input:
  assumes "getAiAgentStatus (serverUrlOf settings) = result"
    and "parseAiAgentStateMessage payload = Some result"
    and "\<not> status_active result"
    and "0 < waitingForInput result"
  shows "check getAiAgentStatus settings =
      (if allowsWaiting settings then \<lparr>active = True, reason = None, message = None\<rparr>
       else \<lparr>active = False, reason = Some waiting,
             message = Some ''AI agent is waiting for your input.''\<rparr>)
    \<and> parseWebSocketMessage parseAiAgentStateMessage payload settings =
      Some (if allowsWaiting settings then \<lparr>active = True, reason = None, message = None\<rparr>
            else \<lparr>active = False, reason = Some waiting,
                  message = Some ''AI agent is waiting for your input.''\<rparr>)"
  using assms by (simp add: check_def parseWebSocketMessage_def Let_def)

theorem check_waiting_for_input_witness:
  "\<not> status_active waitingStatus \<and> 0 < waitingForInput waitingStatus
   \<and> \<not> allowsWaiting (Some \<lparr>serverUrl = Some ''http://localhost:8765'',
         allowWhileWaitingForInput = None\<rparr>)
   \<and> check (\<lambda>url. waitingStatus) (Some \<lparr>serverUrl = Some ''http://localhost:8765'',
         allowWhileWaitingForInput = None\<rparr>)
       = \<lparr>active = False, reason = Some waiting,
          message = Some ''AI agent is waiting for your input.''\<rparr>
   \<and> allowsWaiting (Some \<lparr>serverUrl = None, allowWhileWaitingForInput = Some True\<rparr>)
   \<and> check (\<lambda>url. waitingStatus) (Some \<lparr>serverUrl = None,
         allowWhileWaitingForInput = Some True\<rparr>)
       = \<lparr>active = True, reason = None, message = None\<rparr>
   \<and> parseWebSocketMessage Some waitingStatus None
       = Some \<lparr>active = False, reason = Some waiting,
          message = Some ''AI agent is waiting for your input.''\<rparr>"
proof -
  have h: "\<not> status_active waitingStatus" "0 < waitingForInput waitingStatus"
    by (simp_all add: waitingStatus_def)
  have a: "\<not> allowsWaiting (Some \<lparr>serverUrl = Some ''http://localhost:8765'',
         allowWhileWaitingForInput = None\<rparr>)"
    "allowsWaiting (Some \<lparr>serverUrl = None, allowWhileWaitingForInput = Some True\<rparr>)"
    "\<not> allowsWaiting None"
    by (simp_all add: allowsWaiting_def)
  note t = check_waiting_for_input [where getAiAgentStatus = "\<lambda>url. waitingStatus"
      and parseAiAgentStateMessage = Some and payload = waitingStatus, OF refl refl h]
  from t [of "Some \<lparr>serverUrl = Some ''http://localhost:8765'', allowWhileWaitingForInput = None\<rparr>"]
    t [of "Some \<lparr>serverUrl = None, allowWhileWaitingForInput = Some True\<rparr>"]
    t [of None] h a
  show ?thesis by simp
qed

section \<open>The guard watcher\<close>

lemma stopped_emitState: "stopped w \<Longrightarrow> emitState st w = w"
  by (simp add: emitState_def)

lemma stopped_stop: "stopped w \<Longrightarrow> stop w = w"
  by (simp add: stop_def)

lemma stopped_step:
  "stopped w \<Longrightarrow> stopped (step e w) \<and> emitted (step e w) = emitted w"
  by (cases e)
    (auto simp: runCheck_def heartbeatTick_def pingTick_def reconnectFired_def connect_def
      clearTimer_def handleGuardState_def stopped_emitState stopped_stop onOpen_def
      onMessage_def scheduleReconnect_def closeSocket_def Let_def
      split: option.splits)

lemma stopped_run:
  "stopped w \<Longrightarrow> stopped (run es w) \<and> emitted (run es w) = emitted w"
proof (induction es arbitrary: w)
  case Nil
  then show ?case by simp
next
  case (Cons e es)
  from Cons.prems have s: "stopped (step e w)" "emitted (step e w) = emitted w"
    using stopped_step by blast+
  from Cons.IH [OF s(1)] s(2) show ?case by simp
qed

lemma stop_stops: "stopped (stop w)"
  by (simp add: stop_def Let_def clearTimer_def closeSocket_def split: option.splits)

lemma stop_emitted: "emitted (stop w) = emitted w"
  by (simp add: stop_def Let_def clearTimer_def closeSocket_def split: option.splits)

text \<open>
  Claim C7. After \<open>stop\<close>, whatever events follow (late timer callbacks, socket
  events, checks that complete), the session stays stopped and the list of states passed
  to \<open>onState\<close> is the one it was when \<open>stop\<close> was called.
\<close>

theorem no_emission_after_stop:
  "stopped (run es (stop w)) \<and> emitted (run es (stop w)) = emitted w"
  using stopped_run [OF stop_stops, of es w] by (simp add: stop_emitted)

subsection \<open>An inactive result stops the session\<close>

lemma tracked_initial: "tracked initialWatcher"
  by (simp add: tracked_def initialWatcher_def)

lemma tracked_runCheck: "tracked w \<Longrightarrow> tracked (runCheck w)"
  by (simp add: tracked_def runCheck_def)

lemma tracked_emitState: "tracked w \<Longrightarrow> tracked (emitState st w)"
  by (simp add: tracked_def emitState_def)

lemma timers_clearTimer:
  "timers (clearTimer t w) = filter (\<lambda>e. Some (fst e) \<noteq> t) (timers w)"
  by (cases t) (simp_all add: clearTimer_def)

lemma clearTimer_fields:
  "stopped (clearTimer t w) = stopped w" "socket (clearTimer t w) = socket w"
  "sockets (clearTimer t w) = sockets w" "emitted (clearTimer t w) = emitted w"
  "pollTimer (clearTimer t w) = pollTimer w" "heartbeatTimer (clearTimer t w) = heartbeatTimer w"
  "wsPingTimer (clearTimer t w) = wsPingTimer w" "reconnectTimer (clearTimer t w) = reconnectTimer w"
  by (cases t; simp add: clearTimer_def)+

lemma stop_running:
  assumes "\<not> stopped w"
  shows "timers (stop w) =
      filter (\<lambda>e. Some (fst e) \<noteq> pollTimer w \<and> Some (fst e) \<noteq> heartbeatTimer w
                 \<and> Some (fst e) \<noteq> wsPingTimer w \<and> Some (fst e) \<noteq> reconnectTimer w) (timers w)"
    and "sockets (stop w) = filter (\<lambda>e. Some (fst e) \<noteq> socket w) (sockets w)"
    and "socket (stop w) = None" and "stopped (stop w)" and "emitted (stop w) = emitted w"
  using assms
  by (cases "socket w";
      simp add: stop_def Let_def timers_clearTimer clearTimer_fields closeSocket_def)+

lemma stop_clears:
  "tracked w \<Longrightarrow> \<not> stopped w \<Longrightarrow>
     timers (stop w) = [] \<and> sockets (stop w) = [] \<and> socket (stop w) = None \<and> stopped (stop w)
     \<and> emitted (stop w) = emitted w"
  by (auto simp: stop_running tracked_def list_all_iff filter_empty_conv)

lemma tracked_stop: "tracked w \<Longrightarrow> tracked (stop w)"
proof (cases "stopped w")
  case True
  assume "tracked w"
  with True show ?thesis by (simp add: stop_def)
next
  case False
  assume "tracked w"
  from stop_clears [OF this False] show ?thesis by (simp add: tracked_def)
qed

lemma tracked_handle: "tracked w \<Longrightarrow> tracked (handleGuardState st w)"
  by (simp add: handleGuardState_def Let_def tracked_stop tracked_emitState)

lemma tracked_pingsSent: "tracked (w\<lparr>pingsSent := n\<rparr>) = tracked w"
  by (simp add: tracked_def)

lemma tracked_connect: "tracked w \<Longrightarrow> tracked (connect w)"
  by (auto simp: tracked_def connect_def Let_def closeSocket_def list_all_iff split: option.splits)

lemma tracked_scheduleReconnect: "tracked w \<Longrightarrow> tracked (scheduleReconnect w)"
  by (auto simp: tracked_def scheduleReconnect_def Let_def newTimer_def list_all_iff)

lemma tracked_closeSocket: "tracked w \<Longrightarrow> tracked (closeSocket h w)"
  by (auto simp: tracked_def closeSocket_def list_all_iff)

lemma tracked_reconnectFired: "tracked w \<Longrightarrow> tracked (reconnectFired w)"
proof -
  assume t: "tracked w"
  have "tracked ((clearTimer (reconnectTimer w) w)\<lparr>reconnectTimer := None\<rparr>)"
    using t by (auto simp: tracked_def clearTimer_def list_all_iff split: option.splits)
  then show ?thesis
    by (simp add: reconnectFired_def Let_def tracked_connect)
qed

lemma tracked_step: "tracked w \<Longrightarrow> tracked (step e w)"
proof (cases e)
  case (SocketOpen h)
  assume "tracked w"
  then have "tracked (w\<lparr>sockets := map (\<lambda>e. if fst e = h then (h, True) else e) (sockets w)\<rparr>)"
    by (auto simp: tracked_def list_all_iff)
  then show ?thesis
    using SocketOpen by (simp add: onOpen_def tracked_def runCheck_def)
qed (auto simp: tracked_runCheck tracked_handle tracked_stop tracked_reconnectFired
      tracked_scheduleReconnect tracked_closeSocket heartbeatTick_def tracked_emitState
      pingTick_def onMessage_def tracked_pingsSent
      split: option.splits)

lemma tracked_run: "tracked w \<Longrightarrow> tracked (run es w)"
  by (induction es arbitrary: w) (simp_all add: tracked_step)

lemma tracked_start: "startGuardWatcher g hb p = Some w \<Longrightarrow> tracked w"
  by (auto simp: startGuardWatcher_def Let_def startPolling_def connect_def newTimer_def
      startHeartbeat_def runCheck_def initialWatcher_def tracked_def closeSocket_def
      split: option.splits if_splits)

lemma start_ws_session: "startGuardWatcher (Some claude_guard) None None = Some ws_session"
  by (simp add: startGuardWatcher_def claude_guard_def ws_session_def Let_def startPolling_def
      connect_def newTimer_def startHeartbeat_def runCheck_def initialWatcher_def)

text \<open>
  Claim C2. In every session reached from \<open>startGuardWatcher\<close> by any events and
  not yet stopped, an event that delivers an inactive guard state (a check that
  resolves to it, a check that is rejected, a stream message that parses to it) passes
  that state to \<open>onState\<close> and stops the session: afterwards no timer is set, no
  socket is left unclosed and the socket variable is null.
\<close>

theorem inactive_result_stops_watcher:
  assumes "startGuardWatcher guard heartbeatMs pollIntervalMs = Some w0"
    and "w = run es w0"
    and "\<not> stopped w"
    and "delivered ev = Some st"
    and "\<not> active st"
  shows "emitted (step ev w) = emitted w @ [st]
    \<and> stopped (step ev w)
    \<and> timers (step ev w) = []
    \<and> sockets (step ev w) = []
    \<and> socket (step ev w) = None"
proof -
  have t: "tracked w" using assms(1,2) tracked_start tracked_run by blast
  have e: "tracked (emitState st w)" "\<not> stopped (emitState st w)"
    "emitted (emitState st w) = emitted w @ [st]"
    using t assms(3) tracked_emitState [of w st] by (simp_all add: emitState_def)
  have h: "handleGuardState st w = stop (emitState st w)"
    using assms(5) by (simp add: handleGuardState_def Let_def)
  have s: "step ev w = handleGuardState st w"
    using assms(4) by (cases ev) (simp_all add: onMessage_def)
  show ?thesis
    unfolding s h using stop_clears [OF e(1,2)] e(3) by simp
qed

theorem inactive_result_stops_watcher_witness:
  "startGuardWatcher (Some claude_guard) None None = Some ws_session
   \<and> \<not> stopped (run [SocketOpen 2] ws_session)
   \<and> delivered (CheckResolved idleState) = Some idleState
   \<and> \<not> active idleState
   \<and> timers (run [SocketOpen 2] ws_session) = [(1, 5000), (3, 10000), (4, 5000)]
   \<and> sockets (run [SocketOpen 2] ws_session) = [(2, True)]
   \<and> emitted (step (CheckResolved idleState) (run [SocketOpen 2] ws_session)) = [idleState]
   \<and> stopped (step (CheckResolved idleState) (run [SocketOpen 2] ws_session))
   \<and> timers (step (CheckResolved idleState) (run [SocketOpen 2] ws_session)) = []
   \<and> sockets (step (CheckResolved idleState) (run [SocketOpen 2] ws_session)) = []
   \<and> socket (step (CheckResolved idleState) (run [SocketOpen 2] ws_session)) = None"
proof -
  have r: "\<not> stopped (run [SocketOpen 2] ws_session)"
    "timers (run [SocketOpen 2] ws_session) = [(1, 5000), (3, 10000), (4, 5000)]"
    "sockets (run [SocketOpen 2] ws_session) = [(2, True)]"
    "emitted (run [SocketOpen 2] ws_session) = []"
    by (simp_all add: ws_session_def onOpen_def runCheck_def)
  have d: "delivered (CheckResolved idleState) = Some idleState" by simp
  have i: "\<not> active idleState" by (simp add: idleState_def)
  from inactive_result_stops_watcher [OF start_ws_session refl r(1) d i] r d i start_ws_session
  show ?thesis by simp
qed

subsection \<open>Reconnect delays\<close>

text \<open>
  Claim C3 gives the delays of five close events in a row as 500, 1000, 2000, 4000 and
  8000 ms, and 500 ms again after a successful open. \<open>scheduleReconnect\<close> increments
  the attempt counter before it computes the delay, so the delays are those below.
\<close>

theorem reconnect_backoff_delays:
  "startGuardWatcher (Some claude_guard) None None = Some ws_session
   \<and> timeoutsSet (run [SocketClose 2] ws_session) = [1000]
   \<and> timeoutsSet (run [SocketClose 2, ReconnectFired, SocketClose 6, ReconnectFired,
         SocketClose 8, ReconnectFired, SocketClose 10, ReconnectFired, SocketClose 12]
         ws_session) = [1000, 2000, 4000, 8000, 10000]
   \<and> timeoutsSet (run [SocketOpen 2, SocketClose 2] ws_session) = [1000]"
  by (simp add: start_ws_session)
    (simp add: ws_session_def scheduleReconnect_def closeSocket_def reconnectFired_def
      connect_def clearTimer_def newTimer_def onOpen_def runCheck_def Let_def)

end
